theory Spec2Isabelle
  imports Complex_Main "HOL-Library.Word"
begin

section \<open>Values\<close>

text \<open>
  The source works on numpy arrays of three element types: \<open>uint8\<close> (the bytes read from
  a snapshot file and the unpacked bits), \<open>int8\<close> (the bipolar samples) and floating
  point (\<open>float32\<close> for a normalized snapshot, \<open>float64\<close> for coordinates and
  distances). The two integer types are 8-bit words; \<open>sint\<close> reads an \<open>int8\<close>.
  A floating-point value is either a number, an infinity or NaN. The model never rounds:
  every floating-point operation of numpy, pymap3d and Shapely is a parameter
  (record \<open>env\<close> below), so nothing is assumed about their rounding.
\<close>

type_synonym uint8 = "8 word"
type_synonym int8 = "8 word"

datatype np_float = Finite real | PosInf | NegInf | NaN

text \<open>\<open>np.isnan\<close> and \<open>np.inf\<close>.\<close>

definition np_isnan :: "np_float \<Rightarrow> bool" where
  "np_isnan x = (case x of NaN \<Rightarrow> True | _ \<Rightarrow> False)"

definition np_inf :: np_float where
  "np_inf = PosInf"

definition is_finite :: "np_float \<Rightarrow> bool" where
  "is_finite x = (case x of Finite _ \<Rightarrow> True | _ \<Rightarrow> False)"

text \<open>The array a snapshot is returned as: \<open>dtype=int8\<close> or \<open>dtype=float32\<close>.\<close>

datatype signal = Int8_signal "int8 list" | Float32_signal "np_float list"

fun signal_length :: "signal \<Rightarrow> nat" where
  "signal_length (Int8_signal xs) = length xs"
| "signal_length (Float32_signal xs) = length xs"

text \<open>
  Exceptions that leave a method uncaught, and the lines a method prints. A message
  stands for the formatted text; its arguments are the values formatted into it.
\<close>

datatype py_exception = TypeError | IndexError | ValueError | OSError | GEOSException

datatype message =
    Snapshot_index_out_of_range int int int
  | Open_ground_truth_file_of_type string
  | Miss_packages_to_load_ground_truth
  | Install_pymap3d_and_Shapely
  | No_ground_truth_file_in string
  | No_ground_truth_location
  | Miss_package_to_calculate_error
  | Install_pymap3d
  | Install_Shapely

type_synonym point2 = "np_float \<times> np_float"
type_synonym point3 = "np_float \<times> np_float \<times> np_float"

text \<open>
  \<open>pm.geodetic2enu lat lon h lat0 lon0 h0\<close>. The call is not guarded in the source, so
  an exception the package raises (pymap3d refuses a latitude beyond 90 degrees with a
  ValueError) leaves the calling method.
\<close>

type_synonym geodetic2enu =
  "np_float \<Rightarrow> np_float \<Rightarrow> np_float \<Rightarrow> np_float \<Rightarrow> np_float \<Rightarrow> np_float
     \<Rightarrow> py_exception + point3"

text \<open>
  The Shapely operations the source calls. A line string is represented by its
  coordinate list; \<open>line_string\<close> is the constructor \<open>sg.LineString\<close>. Each of the three
  may raise (GEOS refuses a point with a NaN coordinate), and no call is guarded in the
  source.
\<close>

record shapely_geometry =
  line_string :: "point2 list \<Rightarrow> py_exception + point2 list"
  project :: "point2 list \<Rightarrow> point2 \<Rightarrow> py_exception + np_float"
  interpolate :: "point2 list \<Rightarrow> np_float \<Rightarrow> py_exception + point2"

text \<open>
  Everything the source takes from outside: \<open>os.path.join\<close>, the contents of the files
  \<open>np.fromfile\<close> can open, the floating-point operations of numpy, and the two optional
  packages (\<open>None\<close> when the import fails).
\<close>

record env =
  path_join :: "string \<Rightarrow> string \<Rightarrow> string"
  files :: "string \<Rightarrow> uint8 list option"
  f32_mean :: "np_float list \<Rightarrow> np_float"
  f32_subtract :: "np_float \<Rightarrow> np_float \<Rightarrow> np_float"
  f64_subtract :: "np_float \<Rightarrow> np_float \<Rightarrow> np_float"
  linalg_norm :: "np_float list \<Rightarrow> np_float"
  pymap3d :: "geodetic2enu option"
  shapely :: "shapely_geometry option"

section \<open>The dataset object\<close>

record geodetic_point =
  latitude :: np_float
  longitude :: np_float

text \<open>\<open>_ground_truth\<close> is a dictionary (static dataset) or a list of dictionaries.\<close>

datatype ground_truth = Point geodetic_point | Track "geodetic_point list"

text \<open>
  The attributes of a constructed \<open>Dataset\<close> that the methods below read. An attribute
  the constructor sets to \<open>None\<close> is \<open>None\<close> here.
\<close>

record ground_truth_model =
  ground_truth_attr :: "ground_truth option"
  ref_location :: "geodetic_point option"
  track :: "point2 list option"

record dataset = ground_truth_model +
  directory :: string
  filenames :: "string list option"

section \<open>Reading a snapshot\<close>

text \<open>
  \<open>bytes_per_snapshot = int(4092000.0 * 12e-3 / 8)\<close>. In IEEE double precision the
  product rounds to 49104.0 exactly, the quotient is 6138.0 and \<open>int\<close> gives 6138.
\<close>

definition bytes_per_snapshot :: nat where
  "bytes_per_snapshot = 6138"

text \<open>
  Indexing a Python list with an integer: a negative index counts from the end, and an
  index that is out of range on either side raises IndexError (\<open>None\<close> here).
\<close>

definition list_getitem :: "'a list \<Rightarrow> int \<Rightarrow> 'a option" where
  "list_getitem xs idx =
     (if 0 \<le> idx \<and> idx < int (length xs) then Some (xs ! nat idx)
      else if idx < 0 \<and> - int (length xs) \<le> idx then Some (xs ! nat (int (length xs) + idx))
      else None)"

text \<open>
  \<open>np.fromfile(filename, dtype='>u1', count=count)\<close>: at most \<open>count\<close> bytes from the
  start of the file; a file that holds fewer gives a shorter array and no error; a file
  that cannot be opened raises.
\<close>

definition fromfile :: "env \<Rightarrow> string \<Rightarrow> nat \<Rightarrow> py_exception + uint8 list" where
  "fromfile e filename count =
     (case files e filename of
        None \<Rightarrow> Inl OSError
      | Some content \<Rightarrow> Inr (take count content))"

text \<open>
  \<open>np.unpackbits(signal_bytes, axis=-1, count=None, bitorder='little')\<close>: eight array
  elements per byte, each 0 or 1, the least significant bit first.
\<close>

definition unpackbits_little :: "uint8 list \<Rightarrow> uint8 list" where
  "unpackbits_little bs =
     concat (map (\<lambda>b. map (\<lambda>i. if bit b i then 1 else 0) [0..<8]) bs)"

text \<open>\<open>signal.astype(np.float32)\<close> on an \<open>int8\<close> array is exact.\<close>

definition astype_float32 :: "int8 \<Rightarrow> np_float" where
  "astype_float32 s = Finite (real_of_int (sint s))"

text \<open>
  Lines 203 to 212 of \<open>get_snapshot\<close>, the decoding of the bytes read: unpack the bits,
  map \<open>{0,1}\<close> to \<open>{+1,-1}\<close> in \<open>int8\<close> arithmetic, and subtract the mean in
  \<open>float32\<close> when \<open>normalize\<close> is set.
\<close>

definition decode :: "env \<Rightarrow> uint8 list \<Rightarrow> bool \<Rightarrow> signal" where
  "decode e signal_bytes normalize' =
     (let signal = unpackbits_little signal_bytes;
          signal = map (\<lambda>b. - 2 * b + 1) signal
      in if normalize' then
           (let signal = map astype_float32 signal
            in Float32_signal (map (\<lambda>s. f32_subtract e s (f32_mean e signal)) signal))
         else Int8_signal signal)"

text \<open>What a call does: its result or uncaught exception, what it prints, which files it opens.\<close>

record 'a run =
  returned :: "py_exception + 'a"
  printed :: "message list"
  files_accessed :: "string list"

definition get_size :: "'a dataset_scheme \<Rightarrow> py_exception + nat" where
  "get_size self = (case filenames self of None \<Rightarrow> Inl TypeError | Some fns \<Rightarrow> Inr (length fns))"

text \<open>
  \<open>get_snapshot(idx, normalize)\<close>. The result \<open>None\<close> is Python's \<open>None\<close>, returned
  after the out-of-range message is printed.
\<close>

definition get_snapshot :: "env \<Rightarrow> 'a dataset_scheme \<Rightarrow> int \<Rightarrow> bool \<Rightarrow> signal option run" where
  "get_snapshot e self idx normalize' =
     (case filenames self of
        None \<Rightarrow> \<lparr>returned = Inl TypeError, printed = [], files_accessed = []\<rparr>
      | Some fns \<Rightarrow>
         (case list_getitem fns idx of
            None \<Rightarrow>
              \<lparr>returned = Inr None,
               printed = [Snapshot_index_out_of_range idx 0 (int (length fns) - 1)],
               files_accessed = []\<rparr>
          | Some name \<Rightarrow>
              (let filename = path_join e (directory self) name
               in case fromfile e filename bytes_per_snapshot of
                    Inl err \<Rightarrow>
                      \<lparr>returned = Inl err, printed = [], files_accessed = [filename]\<rparr>
                  | Inr signal_bytes \<Rightarrow>
                      \<lparr>returned = Inr (Some (decode e signal_bytes normalize')),
                       printed = [], files_accessed = [filename]\<rparr>)))"

section \<open>Ground truth\<close>

text \<open>
  Lines 94 to 157 of the constructor. \<open>gt_files\<close> is what \<open>glob\<close> found, in its order:
  the path of each file with the polyline nodes its parsing yields (parsing the XML is
  outside this model; each file is parsed before anything else is done with it). The
  loop keeps \<open>_ground_truth\<close>, \<open>_ref_location\<close> and the list \<open>gt_enu\<close> of converted
  arrays, one per file.
\<close>

record gt_loop =
  loop_ground_truth :: "geodetic_point list"
  loop_ref_location :: "geodetic_point option"
  gt_enu :: "point3 list list"
  loop_printed :: "message list"
  loop_parsed :: "string list"

text \<open>\<open>gt_file[-3:]\<close>.\<close>

definition file_ending_of :: "string \<Rightarrow> string" where
  "file_ending_of gt_file = drop (length gt_file - 3) gt_file"

text \<open>
  \<open>pm.geodetic2enu\<close> applied to the lists of latitudes and longitudes of a file: one
  converted point per node, or the exception the call raises.
\<close>

fun geodetic2enu_nodes ::
  "geodetic2enu \<Rightarrow> geodetic_point list \<Rightarrow> geodetic_point \<Rightarrow> py_exception + point3 list"
where
  "geodetic2enu_nodes pm [] r = Inr []"
| "geodetic2enu_nodes pm (g # gs) r =
     (case pm (latitude g) (longitude g) (Finite 0) (latitude r) (longitude r) (Finite 0) of
        Inl err \<Rightarrow> Inl err
      | Inr p \<Rightarrow>
         (case geodetic2enu_nodes pm gs r of
            Inl err \<Rightarrow> Inl err
          | Inr ps \<Rightarrow> Inr (p # ps)))"

text \<open>
  The body of \<open>for gt_file in gt_files\<close>. The result is the exception that ends the
  loop, if any, with the state reached.
\<close>

fun load_gt_files ::
  "geodetic2enu \<Rightarrow> (string \<times> geodetic_point list) list \<Rightarrow> gt_loop \<Rightarrow> py_exception option \<times> gt_loop"
where
  "load_gt_files pm [] st = (None, st)"
| "load_gt_files pm ((gt_file, nodes) # rest) st =
     (let file_ending = file_ending_of gt_file;
          st = st\<lparr>loop_parsed := loop_parsed st @ [gt_file],
                  loop_printed := loop_printed st @ [Open_ground_truth_file_of_type file_ending]\<rparr>
      in if file_ending = ''gpx'' \<or> file_ending = ''kml'' then
           (let st = st\<lparr>loop_ground_truth := nodes\<rparr>
            in case list_getitem nodes 0 of
                 None \<Rightarrow> (Some IndexError, st)
               | Some r \<Rightarrow>
                   (let st = st\<lparr>loop_ref_location := Some r\<rparr>
                    in case geodetic2enu_nodes pm nodes r of
                         Inl err \<Rightarrow> (Some err, st)
                       | Inr enu \<Rightarrow>
                           load_gt_files pm rest (st\<lparr>gt_enu := gt_enu st @ [enu]\<rparr>)))
         else (Some ValueError, st))"

definition init_ground_truth ::
  "env \<Rightarrow> string \<Rightarrow> (string \<times> geodetic_point list) list \<Rightarrow> np_float option \<Rightarrow> np_float option
     \<Rightarrow> ground_truth_model option run"
where
  "init_ground_truth e directory' gt_files meta_latitude meta_longitude =
     (if length gt_files > 0 then
        (case (pymap3d e, shapely e) of
           (Some pm, Some sg) \<Rightarrow>
             (let (raised, st) =
                    load_gt_files pm gt_files
                      \<lparr>loop_ground_truth = [], loop_ref_location = None, gt_enu = [],
                       loop_printed = [], loop_parsed = []\<rparr>
              in case raised of
                   Some err \<Rightarrow>
                     \<lparr>returned = Inl err, printed = loop_printed st,
                      files_accessed = loop_parsed st\<rparr>
                 | None \<Rightarrow>
                     (case line_string sg (map (\<lambda>(east, north, up). (east, north)) (concat (gt_enu st))) of
                        Inl err \<Rightarrow>
                          \<lparr>returned = Inl err, printed = loop_printed st,
                      files_accessed = loop_parsed st\<rparr>
                      | Inr line \<Rightarrow>
                          \<lparr>returned = Inr (Some
                             \<lparr>ground_truth_attr = Some (Track (loop_ground_truth st)),
                              ref_location = loop_ref_location st,
                              track = Some line\<rparr>),
                           printed = loop_printed st, files_accessed = loop_parsed st\<rparr>))
         | _ \<Rightarrow>
             \<lparr>returned = Inr None,
              printed = [Miss_packages_to_load_ground_truth, Install_pymap3d_and_Shapely],
              files_accessed = []\<rparr>)
      else
        (case (meta_latitude, meta_longitude) of
           (Some lat, Some lon) \<Rightarrow>
             \<lparr>returned = Inr (Some
                \<lparr>ground_truth_attr = Some (Point \<lparr>latitude = lat, longitude = lon\<rparr>),
                 ref_location = Some \<lparr>latitude = lat, longitude = lon\<rparr>,
                 track = None\<rparr>),
              printed = [], files_accessed = []\<rparr>
         | _ \<Rightarrow>
             \<lparr>returned = Inr (Some
                \<lparr>ground_truth_attr = None, ref_location = None, track = None\<rparr>),
              printed = [No_ground_truth_file_in directory', No_ground_truth_location],
              files_accessed = []\<rparr>))"

section \<open>Horizontal error\<close>

text \<open>
  Lines 295 to 323 of \<open>get_error\<close>: the value of \<open>err\<close>, or \<open>None\<close> when the method has
  returned early because a package is missing, or the exception raised by the missing
  reference location or by a call into pymap3d or Shapely.
\<close>

definition computed_error ::
  "env \<Rightarrow> 'a ground_truth_model_scheme \<Rightarrow> np_float \<Rightarrow> np_float \<Rightarrow> np_float option run"
where
  "computed_error e self latitude' longitude' =
     (case pymap3d e of
        None \<Rightarrow>
          \<lparr>returned = Inr None, printed = [Miss_package_to_calculate_error, Install_pymap3d],
           files_accessed = []\<rparr>
      | Some pm \<Rightarrow>
         (case ref_location self of
            None \<Rightarrow> \<lparr>returned = Inl TypeError, printed = [], files_accessed = []\<rparr>
          | Some r \<Rightarrow>
             (case pm latitude' longitude' (Finite 0) (latitude r) (longitude r) (Finite 0) of
                Inl err \<Rightarrow> \<lparr>returned = Inl err, printed = [], files_accessed = []\<rparr>
              | Inr (err_east, err_north, err_height) \<Rightarrow>
                 (case track self of
                    Some line \<Rightarrow>
                      (case shapely e of
                         None \<Rightarrow>
                           \<lparr>returned = Inr None,
                            printed = [Miss_package_to_calculate_error, Install_Shapely],
                            files_accessed = []\<rparr>
                       | Some sg \<Rightarrow>
                          (case project sg line (err_east, err_north) of
                             Inl err \<Rightarrow> \<lparr>returned = Inl err, printed = [], files_accessed = []\<rparr>
                           | Inr distance \<Rightarrow>
                              (case interpolate sg line distance of
                                 Inl err \<Rightarrow>
                                   \<lparr>returned = Inl err, printed = [], files_accessed = []\<rparr>
                               | Inr nearest_point \<Rightarrow>
                                   \<lparr>returned = Inr (Some (linalg_norm e
                                      [f64_subtract e (fst nearest_point) err_east,
                                       f64_subtract e (snd nearest_point) err_north])),
                                    printed = [], files_accessed = []\<rparr>)))
                  | None \<Rightarrow>
                      \<lparr>returned = Inr (Some (linalg_norm e [err_east, err_north])),
                       printed = [], files_accessed = []\<rparr>))))"

text \<open>\<open>get_error\<close>: lines 325 to 328 applied to \<open>err\<close>.\<close>

definition get_error ::
  "env \<Rightarrow> 'a ground_truth_model_scheme \<Rightarrow> np_float \<Rightarrow> np_float \<Rightarrow> np_float option run"
where
  "get_error e self latitude' longitude' =
     (let r = computed_error e self latitude' longitude'
      in case returned r of
           Inr (Some err) \<Rightarrow>
             r\<lparr>returned := Inr (Some (if np_isnan err then np_inf else err))\<rparr>
         | _ \<Rightarrow> r)"

section \<open>An environment to run the model in\<close>

text \<open>
  The theorems below hold for every environment. To run the model on concrete inputs
  an environment is needed; this one computes in exact real arithmetic and converts
  coordinates on a plane (east is the difference of the longitudes, north that of the
  latitudes), refusing a latitude beyond 90 degrees as pymap3d does. It stands in for
  numpy and pymap3d in examples only; Shapely is absent from it.
\<close>

fun real_of_np :: "np_float \<Rightarrow> real" where
  "real_of_np (Finite x) = x"
| "real_of_np _ = 0"

definition exact_subtract :: "np_float \<Rightarrow> np_float \<Rightarrow> np_float" where
  "exact_subtract a b =
     (if is_finite a \<and> is_finite b then Finite (real_of_np a - real_of_np b) else NaN)"

definition exact_mean :: "np_float list \<Rightarrow> np_float" where
  "exact_mean xs =
     (if xs \<noteq> [] \<and> list_all is_finite xs
      then Finite (sum_list (map real_of_np xs) / real (length xs)) else NaN)"

definition exact_norm :: "np_float list \<Rightarrow> np_float" where
  "exact_norm v =
     (if list_ex np_isnan v then NaN
      else if list_all is_finite v
      then Finite (sqrt (sum_list (map (\<lambda>x. real_of_np x * real_of_np x) v)))
      else PosInf)"

definition latitude_refused :: "np_float \<Rightarrow> bool" where
  "latitude_refused lat = (case lat of Finite x \<Rightarrow> 90 < \<bar>x\<bar> | PosInf \<Rightarrow> True | NegInf \<Rightarrow> True | NaN \<Rightarrow> False)"

definition plane_enu :: geodetic2enu where
  "plane_enu lat lon h lat0 lon0 h0 =
     (if latitude_refused lat \<or> latitude_refused lat0 then Inl ValueError
      else Inr (exact_subtract lon lon0, exact_subtract lat lat0, exact_subtract h h0))"

definition plane_env :: env where
  "plane_env =
     \<lparr>path_join = (\<lambda>a b. a @ ''/'' @ b),
      files = Map.empty,
      f32_mean = exact_mean,
      f32_subtract = exact_subtract,
      f64_subtract = exact_subtract,
      linalg_norm = exact_norm,
      pymap3d = Some plane_enu,
      shapely = None\<rparr>"

text \<open>A dataset of snapshots without ground truth, in directory \<open>d\<close>.\<close>

definition snapshot_dataset :: "string list \<Rightarrow> dataset" where
  "snapshot_dataset fns =
     \<lparr>ground_truth_attr = None, ref_location = None, track = None,
      directory = ''d'', filenames = Some fns\<rparr>"

definition node :: "real \<Rightarrow> real \<Rightarrow> geodetic_point" where
  "node lat lon = \<lparr>latitude = Finite lat, longitude = Finite lon\<rparr>"

text \<open>A static dataset whose ground truth is the given location.\<close>

definition static_model :: "geodetic_point \<Rightarrow> ground_truth_model" where
  "static_model g = \<lparr>ground_truth_attr = Some (Point g), ref_location = Some g, track = None\<rparr>"

text \<open>
  What \<open>np.linalg.norm\<close> can return: a non-negative number, \<open>+inf\<close> or NaN.
\<close>

definition norm_value :: "np_float \<Rightarrow> bool" where
  "norm_value x = (case x of Finite r \<Rightarrow> 0 \<le> r | PosInf \<Rightarrow> True | NegInf \<Rightarrow> False | NaN \<Rightarrow> True)"

section \<open>Accuracy of the float32 operations\<close>

text \<open>
  What is asked of \<open>np.mean\<close> and of the subtraction on \<open>float32\<close> where a normalized
  snapshot uses them: the mean of a non-empty array of values \<open>-1\<close> and \<open>+1\<close> is a number
  within \<open>delta\<close> of the exact mean, and the difference of \<open>-1\<close> or \<open>+1\<close> and a number
  of absolute value at most 2 is a number within \<open>eps\<close> of the exact difference. IEEE
  single precision, rounding to nearest, has \<open>delta = 2^-25\<close> and \<open>eps = 2^-24\<close> here: the
  sum of up to 49104 such values is an integer it represents exactly.
\<close>

definition float32_accurate :: "env \<Rightarrow> real \<Rightarrow> real \<Rightarrow> bool" where
  "float32_accurate e delta eps \<longleftrightarrow>
     (\<forall>zs. zs \<noteq> [] \<and> (\<forall>z \<in> set zs. z = - 1 \<or> z = 1) \<longrightarrow>
        (\<exists>m. f32_mean e (map Finite zs) = Finite m \<and>
             \<bar>m - sum_list zs / real (length zs)\<bar> \<le> delta)) \<and>
     (\<forall>a b. (a = - 1 \<or> a = 1) \<and> \<bar>b\<bar> \<le> 2 \<longrightarrow>
        (\<exists>c. f32_subtract e (Finite a) (Finite b) = Finite c \<and> \<bar>c - (a - b)\<bar> \<le> eps))"

section \<open>The nearest point of a polyline\<close>

text \<open>
  Modelled from the spec: Shapely's \<open>LineString\<close> and its methods \<open>project\<close> and
  \<open>interpolate\<close>, which \<open>get_error\<close> calls on a track, are not part of the repository.
  The spec describes them: for each segment, clamp the projection parameter to \<open>[0, 1]\<close>,
  evaluate the Euclidean distance to the clamped point, take the global minimum over the
  segments; this is to match projecting onto the curve's running-length parameterization
  and then re-evaluating the point at that arc length.
\<close>

text \<open>Modelled from the spec: a point of the local plane, east and north in metres.\<close>

type_synonym rpoint = "real \<times> real"

text \<open>
  Modelled from the spec: the Euclidean distance of two points of the local plane.
\<close>

definition dist2 :: "rpoint \<Rightarrow> rpoint \<Rightarrow> real" where
  "dist2 p q = sqrt ((fst p - fst q) * (fst p - fst q) + (snd p - snd q) * (snd p - snd q))"












section \<open>Unpacking and decoding\<close>

lemma unpackbits_little_Nil: "unpackbits_little [] = []"
  by (simp add: unpackbits_little_def)

lemma unpackbits_little_Cons:
  "unpackbits_little (b # bs) =
     map (\<lambda>i. if bit b i then 1 else 0) [0..<8] @ unpackbits_little bs"
  by (simp add: unpackbits_little_def)

lemma length_unpackbits_little: "length (unpackbits_little bs) = 8 * length bs"
  by (induction bs) (simp_all add: unpackbits_little_Nil unpackbits_little_Cons)

text \<open>Array element \<open>i\<close> is bit \<open>i mod 8\<close> of byte \<open>i div 8\<close>.\<close>

lemma unpackbits_little_nth:
  "i < 8 * length bs \<Longrightarrow>
     unpackbits_little bs ! i = (if bit (bs ! (i div 8)) (i mod 8) then 1 else 0)"
proof (induction bs arbitrary: i)
  case Nil
  then show ?case by simp
next
  case (Cons b bs)
  show ?case
  proof (cases "i < 8")
    case True
    then have "unpackbits_little (b # bs) ! i = map (\<lambda>i. if bit b i then 1 else 0) [0..<8] ! i"
      by (simp add: unpackbits_little_Cons nth_append del: upt_Suc)
    also have "\<dots> = (if bit b i then 1 else 0)"
      using True by (simp del: upt_Suc)
    finally show ?thesis using True by simp
  next
    case False
    then have i8: "8 \<le> i" by simp
    then have "unpackbits_little (b # bs) ! i = unpackbits_little bs ! (i - 8)"
      by (simp add: unpackbits_little_Cons nth_append del: upt_Suc)
    moreover have "i - 8 < 8 * length bs" using Cons.prems i8 by simp
    moreover have "(i - 8) div 8 = i div 8 - 1" "(i - 8) mod 8 = i mod 8"
      using i8 by (simp_all add: le_mod_geq)
    moreover have "0 < i div 8" using i8 by (simp add: div_greater_zero_iff)
    ultimately show ?thesis
      using Cons.IH [of "i - 8"] by (simp add: nth_Cons')
  qed
qed

lemma replicate_8_plus: "replicate (8 + m) x = x # x # x # x # x # x # x # x # replicate m x"
  by (simp add: eval_nat_numeral)

lemma unpackbits_little_zeros: "unpackbits_little (replicate n 0) = replicate (8 * n) 0"
  by (induction n)
    (simp_all add: unpackbits_little_Nil unpackbits_little_Cons upt_rec replicate_8_plus)

lemma unpackbits_little_bits: "x \<in> set (unpackbits_little bs) \<Longrightarrow> x = 0 \<or> x = 1"
  by (induction bs) (auto simp add: unpackbits_little_Nil unpackbits_little_Cons)

lemma decode_int8:
  "decode e signal_bytes False =
     Int8_signal (map (\<lambda>b. - 2 * b + 1) (unpackbits_little signal_bytes))"
  by (simp add: decode_def)

lemma signal_length_decode: "signal_length (decode e signal_bytes nz) = 8 * length signal_bytes"
  by (simp add: decode_def length_unpackbits_little Let_def)

lemma decode_int8_values:
  assumes "decode e signal_bytes False = Int8_signal s" and "x \<in> set s"
  shows "sint x = - 1 \<or> sint x = 1"
proof -
  from assms obtain b where "b \<in> set (unpackbits_little signal_bytes)" and "x = - 2 * b + 1"
    by (auto simp add: decode_int8)
  then show ?thesis
    using unpackbits_little_bits [of b signal_bytes] by auto
qed

text \<open>
  Claim C2. Decoding uses little-endian bit order within each byte and maps a bit \<open>b\<close>
  to the sample \<open>-2b + 1\<close>: sample \<open>i\<close> of the output comes from bit \<open>i mod 8\<close> of byte
  \<open>i div 8\<close>. For the buffer whose first byte is \<open>0x01\<close> and whose other 6137 bytes are
  \<open>0x00\<close>, the first sample is \<open>-1\<close> and every sample after it, the following seven of
  that byte among them, is \<open>+1\<close>.
\<close>

theorem decode_bit_order:
  "(\<exists>s. decode e bs False = Int8_signal s \<and> length s = 8 * length bs \<and>
        (\<forall>i < 8 * length bs.
           sint (s ! i) = - 2 * of_bool (bit (bs ! (i div 8)) (i mod 8)) + 1)) \<and>
   (\<exists>s. decode e (1 # replicate 6137 0) False = Int8_signal s \<and>
        map sint s = - 1 # replicate 49103 1)"
proof (intro conjI)
  let ?s = "map (\<lambda>b. - 2 * b + 1) (unpackbits_little bs) :: int8 list"
  have "sint (?s ! i) = - 2 * of_bool (bit (bs ! (i div 8)) (i mod 8)) + 1"
    if "i < 8 * length bs" for i
    using that by (simp add: length_unpackbits_little unpackbits_little_nth)
  then show "\<exists>s. decode e bs False = Int8_signal s \<and> length s = 8 * length bs \<and>
        (\<forall>i < 8 * length bs.
           sint (s ! i) = - 2 * of_bool (bit (bs ! (i div 8)) (i mod 8)) + 1)"
    by (simp add: decode_int8 length_unpackbits_little)
next
  have "replicate 49103 (1 :: int) = replicate 7 1 @ replicate 49096 1"
    by (simp add: replicate_add [symmetric])
  also have "replicate 7 (1 :: int) = [1, 1, 1, 1, 1, 1, 1]"
    by (simp add: eval_nat_numeral)
  finally show "\<exists>s. decode e (1 # replicate 6137 0) False = Int8_signal s \<and>
        map sint s = - 1 # replicate 49103 1"
    by (simp add: decode_int8 unpackbits_little_Cons unpackbits_little_zeros upt_rec)
qed

text \<open>
  The bytes \<open>0x02, 0x01\<close>: bit 1 of the first byte and bit 0 of the second are set, so
  samples 1 and 8 are \<open>-1\<close> and sample 9 is \<open>+1\<close>.
\<close>

theorem decode_bit_order_witness:
  "\<exists>s. decode plane_env [2, 1] False = Int8_signal s \<and> length s = 16 \<and>
       sint (s ! 1) = - 1 \<and> sint (s ! 8) = - 1 \<and> sint (s ! 9) = 1"
proof -
  from decode_bit_order [of plane_env "[2, 1]"]
  obtain s where s: "decode plane_env [2, 1] False = Int8_signal s" "length s = 16"
    and nth: "\<forall>i < 16. sint (s ! i) = - 2 * of_bool (bit ([2, 1 :: uint8] ! (i div 8)) (i mod 8)) + 1"
    by auto
  from nth have "sint (s ! 1) = - 2 * of_bool (bit ([2, 1 :: uint8] ! (1 div 8)) (1 mod 8)) + 1"
    by simp
  moreover from nth have "sint (s ! 8) = - 2 * of_bool (bit ([2, 1 :: uint8] ! (8 div 8)) (8 mod 8)) + 1"
    by simp
  moreover from nth have "sint (s ! 9) = - 2 * of_bool (bit ([2, 1 :: uint8] ! (9 div 8)) (9 mod 8)) + 1"
    by simp
  ultimately show ?thesis using s by simp
qed

text \<open>
  Claim C3. For every buffer of 6138 bytes, decoding without normalization gives
  exactly 49104 values of type \<open>int8\<close> (no floating point), each \<open>-1\<close> or \<open>+1\<close>, and the
  output is determined by the buffer alone: it is the same in every environment.
\<close>

theorem decode_valid_buffer:
  assumes "length buffer = 6138"
  shows "\<exists>s. decode e buffer False = Int8_signal s \<and> length s = 49104 \<and>
            (\<forall>x \<in> set s. sint x = - 1 \<or> sint x = 1) \<and>
            decode e' buffer False = decode e buffer False"
proof -
  let ?s = "map (\<lambda>b. - 2 * b + 1) (unpackbits_little buffer) :: int8 list"
  have "decode e buffer False = Int8_signal ?s"
    by (rule decode_int8)
  moreover have "length ?s = 49104"
    using assms by (simp add: length_unpackbits_little)
  moreover have "\<forall>x \<in> set ?s. sint x = - 1 \<or> sint x = 1"
    using decode_int8_values [OF decode_int8] by blast
  moreover have "decode e' buffer False = decode e buffer False"
    by (simp add: decode_int8)
  ultimately show ?thesis by blast
qed

theorem decode_valid_buffer_witness:
  "length (replicate 6138 (0 :: uint8)) = 6138 \<and>
   (\<exists>s. decode plane_env (replicate 6138 0) False = Int8_signal s \<and> length s = 49104 \<and>
        (\<forall>x \<in> set s. sint x = - 1 \<or> sint x = 1))"
proof -
  have h: "length (replicate 6138 (0 :: uint8)) = 6138" by simp
  from decode_valid_buffer [OF h, of plane_env plane_env] show ?thesis
    using h by blast
qed

section \<open>Normalized snapshots\<close>

lemma decode_float32:
  "decode e signal_bytes True =
     Float32_signal
       (map (\<lambda>s. f32_subtract e s
                (f32_mean e (map astype_float32 (map (\<lambda>b. - 2 * b + 1) (unpackbits_little signal_bytes)))))
          (map astype_float32 (map (\<lambda>b. - 2 * b + 1) (unpackbits_little signal_bytes))))"
  by (simp add: decode_def Let_def)

text \<open>Sums of lists that agree elementwise up to \<open>eps\<close>.\<close>

lemma sum_list_close:
  assumes "length ys = length xs" and "\<forall>i < length xs. \<bar>ys ! i - (xs ! i - m)\<bar> \<le> eps"
  shows "\<bar>sum_list ys - (sum_list xs - real (length xs) * m)\<bar> \<le> real (length xs) * eps"
  using assms
proof (induction ys xs rule: list_induct2)
  case Nil
  then show ?case by simp
next
  case (Cons y ys x xs)
  from Cons.prems have h: "\<bar>y - (x - m)\<bar> \<le> eps"
    by (metis length_Cons nth_Cons_0 zero_less_Suc)
  from Cons.prems have "\<forall>i < length xs. \<bar>ys ! i - (xs ! i - m)\<bar> \<le> eps"
    by (metis Suc_less_eq length_Cons nth_Cons_Suc)
  then have ih: "\<bar>sum_list ys - (sum_list xs - real (length xs) * m)\<bar> \<le> real (length xs) * eps"
    by (rule Cons.IH)
  have "sum_list (y # ys) - (sum_list (x # xs) - real (length (x # xs)) * m) =
        (y - (x - m)) + (sum_list ys - (sum_list xs - real (length xs) * m))"
    by (simp add: algebra_simps)
  then have "\<bar>sum_list (y # ys) - (sum_list (x # xs) - real (length (x # xs)) * m)\<bar> \<le>
        \<bar>y - (x - m)\<bar> + \<bar>sum_list ys - (sum_list xs - real (length xs) * m)\<bar>"
    by simp
  also have "\<dots> \<le> eps + real (length xs) * eps"
    using h ih by simp
  finally show ?case by (simp add: algebra_simps)
qed

lemma sum_list_bipolar:
  "\<forall>z \<in> set zs. z = - 1 \<or> z = (1 :: real) \<Longrightarrow> \<bar>sum_list zs\<bar> \<le> real (length zs)"
  by (induction zs) auto

text \<open>
  Claim C4. For every buffer of 6138 bytes the normalized output has the 49104 elements
  of the output that is not normalized, and element \<open>i\<close> is the \<open>float32\<close> difference of
  sample \<open>i\<close> and the \<open>float32\<close> mean \<open>m\<close> of the samples. When the two \<open>float32\<close>
  operations are accurate to \<open>delta\<close> and \<open>eps\<close>, every element is a number that gives the
  sample back within \<open>eps\<close> once \<open>m\<close> is added to it, and, \<open>delta + eps\<close> being at most
  \<open>1e-6\<close>, the arithmetic mean of the normalized output is within \<open>1e-6\<close> of 0.
\<close>

theorem normalized_snapshot:
  assumes "length buffer = 6138"
    and "float32_accurate e delta eps" and "delta + eps \<le> 1 / 1000000"
  shows "\<exists>s ys m. decode e buffer False = Int8_signal s \<and>
           decode e buffer True = Float32_signal ys \<and>
           length ys = 49104 \<and> length ys = length s \<and>
           f32_mean e (map astype_float32 s) = Finite m \<and>
           (\<forall>i < 49104. ys ! i = f32_subtract e (astype_float32 (s ! i)) (Finite m)) \<and>
           (\<forall>i < 49104. \<exists>y. ys ! i = Finite y \<and> \<bar>y + m - real_of_int (sint (s ! i))\<bar> \<le> eps) \<and>
           \<bar>sum_list (map real_of_np ys) / 49104\<bar> \<le> 1 / 1000000"
proof -
  let ?s = "map (\<lambda>b. - 2 * b + 1) (unpackbits_little buffer) :: int8 list"
  let ?xs = "map (\<lambda>x. real_of_int (sint x)) ?s"
  have len: "length ?s = 49104"
    using assms(1) by (simp add: length_unpackbits_little)
  have vals: "\<forall>z \<in> set ?xs. z = - 1 \<or> z = 1"
  proof
    fix z assume "z \<in> set ?xs"
    then obtain x where x: "x \<in> set ?s" and z: "z = real_of_int (sint x)" by auto
    from decode_int8_values [OF decode_int8 x] have "sint x = - 1 \<or> sint x = 1" .
    then have "real_of_int (sint x) = - 1 \<or> real_of_int (sint x) = 1"
      by (metis of_int_1 of_int_minus)
    with z show "z = - 1 \<or> z = 1" by (simp only:)
  qed
  have ne: "?xs \<noteq> []" using len by auto
  have fl: "map astype_float32 ?s = map Finite ?xs"
    by (simp add: astype_float32_def)
  from assms(2) ne vals obtain m where
    m: "f32_mean e (map Finite ?xs) = Finite m"
    and dm: "\<bar>m - sum_list ?xs / real (length ?xs)\<bar> \<le> delta"
    unfolding float32_accurate_def by blast
  have "\<bar>sum_list ?xs\<bar> \<le> real (length ?xs)"
    using vals by (rule sum_list_bipolar)
  then have "\<bar>sum_list ?xs / real (length ?xs)\<bar> \<le> 1"
    using ne by (simp add: field_simps)
  moreover from assms(2) obtain c :: real where "\<bar>c - (1 - 0)\<bar> \<le> eps"
    unfolding float32_accurate_def by (metis abs_zero zero_le_numeral)
  then have "0 \<le> eps" by linarith
  ultimately have mb: "\<bar>m\<bar> \<le> 2"
    using dm assms(3) by linarith
  let ?ys = "map (\<lambda>s. f32_subtract e s (Finite m)) (map Finite ?xs)"
  have dec: "decode e buffer True = Float32_signal ?ys"
    by (simp only: decode_float32 fl m)
  have sub: "\<exists>c. f32_subtract e (Finite a) (Finite m) = Finite c \<and> \<bar>c - (a - m)\<bar> \<le> eps"
    if "a = - 1 \<or> a = 1" for a
    using assms(2) that mb unfolding float32_accurate_def by blast
  have el: "\<exists>y. ?ys ! i = Finite y \<and> \<bar>y - (?xs ! i - m)\<bar> \<le> eps" if "i < 49104" for i
  proof -
    from that len have i: "i < length ?xs" by simp
    then have "?xs ! i \<in> set ?xs" by (rule nth_mem)
    with vals have "?xs ! i = - 1 \<or> ?xs ! i = 1" by blast
    from sub [OF this] i show ?thesis by simp
  qed
  have close: "\<forall>i < length ?xs. \<bar>map real_of_np ?ys ! i - (?xs ! i - m)\<bar> \<le> eps"
  proof (intro allI impI)
    fix i assume i: "i < length ?xs"
    with len have "i < 49104" by simp
    from el [OF this] obtain y where y: "?ys ! i = Finite y" "\<bar>y - (?xs ! i - m)\<bar> \<le> eps"
      by blast
    have "map real_of_np ?ys ! i = real_of_np (?ys ! i)"
      using i by simp
    with y show "\<bar>map real_of_np ?ys ! i - (?xs ! i - m)\<bar> \<le> eps" by simp
  qed
  have "\<bar>sum_list (map real_of_np ?ys) - (sum_list ?xs - real (length ?xs) * m)\<bar>
          \<le> real (length ?xs) * eps"
    by (rule sum_list_close) (use close in simp_all)
  then have s1: "\<bar>sum_list (map real_of_np ?ys) - (sum_list ?xs - 49104 * m)\<bar> \<le> 49104 * eps"
    using len by simp
  from dm len have s2: "\<bar>49104 * m - sum_list ?xs\<bar> \<le> 49104 * delta"
    by (simp add: field_simps)
  from s1 s2 have "\<bar>sum_list (map real_of_np ?ys)\<bar> \<le> 49104 * (delta + eps)"
    by (simp add: algebra_simps)
  then have "\<bar>sum_list (map real_of_np ?ys) / 49104\<bar> \<le> delta + eps"
    by (simp add: field_simps)
  with assms(3) have mean: "\<bar>sum_list (map real_of_np ?ys) / 49104\<bar> \<le> 1 / 1000000"
    by linarith
  have "decode e buffer False = Int8_signal ?s"
    by (rule decode_int8)
  moreover note dec
  moreover have "length ?ys = 49104" "length ?ys = length ?s"
    using len by simp_all
  moreover have "f32_mean e (map astype_float32 ?s) = Finite m"
    using m by (simp only: fl)
  moreover have "\<forall>i < 49104. ?ys ! i = f32_subtract e (astype_float32 (?s ! i)) (Finite m)"
    using len by (simp add: astype_float32_def)
  moreover have "\<forall>i < 49104. \<exists>y. ?ys ! i = Finite y \<and> \<bar>y + m - real_of_int (sint (?s ! i))\<bar> \<le> eps"
  proof (intro allI impI)
    fix i :: nat assume i: "i < 49104"
    from el [OF i] obtain y where y: "?ys ! i = Finite y" "\<bar>y - (?xs ! i - m)\<bar> \<le> eps" by blast
    have "?xs ! i = real_of_int (sint (?s ! i))" using i len by simp
    with y have "\<bar>y + m - real_of_int (sint (?s ! i))\<bar> \<le> eps"
      by (simp add: algebra_simps)
    with y(1) show "\<exists>y. ?ys ! i = Finite y \<and> \<bar>y + m - real_of_int (sint (?s ! i))\<bar> \<le> eps"
      by blast
  qed
  moreover note mean
  ultimately show ?thesis by blast
qed

lemma exact_mean_Finite:
  "zs \<noteq> [] \<Longrightarrow> exact_mean (map Finite zs) = Finite (sum_list zs / real (length zs))"
proof -
  assume "zs \<noteq> []"
  moreover have "list_all is_finite (map Finite zs)"
    by (simp add: list_all_iff is_finite_def)
  moreover have "map real_of_np (map Finite zs) = zs"
    by (simp add: map_idI)
  ultimately show ?thesis
    by (simp add: exact_mean_def del: map_map)
qed

lemma plane_env_accurate: "float32_accurate plane_env 0 0"
  by (simp add: float32_accurate_def plane_env_def exact_mean_Finite exact_subtract_def
      is_finite_def)

theorem normalized_snapshot_witness:
  "\<exists>ys. decode plane_env (replicate 6138 0) True = Float32_signal ys \<and> length ys = 49104 \<and>
        \<bar>sum_list (map real_of_np ys) / 49104\<bar> \<le> 1 / 1000000"
proof -
  have h: "length (replicate 6138 (0 :: uint8)) = 6138" by simp
  from normalized_snapshot [OF h plane_env_accurate] show ?thesis
    by auto
qed


section \<open>Reading a snapshot by index\<close>

lemma list_getitem_None:
  "list_getitem xs idx = None \<longleftrightarrow> idx < - int (length xs) \<or> int (length xs) \<le> idx"
  by (auto simp add: list_getitem_def)

lemma list_getitem_minus_one:
  "xs \<noteq> [] \<Longrightarrow> list_getitem xs (- 1) = Some (last xs)"
  by (cases xs rule: rev_cases) (simp_all add: list_getitem_def)

lemma list_getitem_last_index:
  "xs \<noteq> [] \<Longrightarrow> list_getitem xs (int (length xs) - 1) = Some (last xs)"
  by (cases xs rule: rev_cases) (simp_all add: list_getitem_def nth_append)

lemma get_snapshot_found:
  assumes "filenames self = Some fns" and "list_getitem fns idx = Some name"
  shows "get_snapshot e self idx nz =
     \<lparr>returned =
        (case fromfile e (path_join e (directory self) name) bytes_per_snapshot of
           Inl err \<Rightarrow> Inl err
         | Inr signal_bytes \<Rightarrow> Inr (Some (decode e signal_bytes nz))),
      printed = [],
      files_accessed = [path_join e (directory self) name]\<rparr>"
  using assms by (simp add: get_snapshot_def split: sum.split)

lemma get_snapshot_not_found:
  assumes "filenames self = Some fns" and "list_getitem fns idx = None"
  shows "get_snapshot e self idx nz =
     \<lparr>returned = Inr None,
      printed = [Snapshot_index_out_of_range idx 0 (int (length fns) - 1)],
      files_accessed = []\<rparr>"
  using assms by (simp add: get_snapshot_def)

text \<open>
  The bytes of a file shorter than 6138 bytes are all decoded, eight samples a byte.
\<close>

lemma short_file_is_decoded:
  assumes "filenames self = Some fns" and "list_getitem fns idx = Some name"
    and "files e (path_join e (directory self) name) = Some content"
    and "length content < 6138"
  shows "returned (get_snapshot e self idx nz) = Inr (Some (decode e content nz)) \<and>
         signal_length (decode e content nz) = 8 * length content"
proof -
  have "take bytes_per_snapshot content = content"
    using assms(4) by (simp add: bytes_per_snapshot_def)
  then have "returned (get_snapshot e self idx nz) = Inr (Some (decode e content nz))"
    using assms(1-3) by (simp add: get_snapshot_found fromfile_def)
  then show ?thesis
    by (simp add: signal_length_decode)
qed

text \<open>
  Claim C1. A buffer of fewer than 6138 bytes has to make decoding fail, and the
  docstring of \<open>get_snapshot\<close> gives the shape of the result as \<open>(49104,)\<close>. The method
  checks neither: it decodes whatever \<open>np.fromfile\<close> could read. For a snapshot file of
  the one byte \<open>0x01\<close> it raises nothing and returns the eight samples of that byte, an
  array of shape \<open>(8,)\<close>.
\<close>

theorem short_file_returns_short_signal:
  "length [1 :: uint8] < 6138 \<and>
   get_snapshot (plane_env\<lparr>files := [''d/s.bin'' \<mapsto> [1]]\<rparr>) (snapshot_dataset [''s.bin'']) 0 False =
     \<lparr>returned = Inr (Some (Int8_signal [- 1, 1, 1, 1, 1, 1, 1, 1])), printed = [],
      files_accessed = [''d/s.bin'']\<rparr> \<and>
   signal_length (Int8_signal [- 1, 1, 1, 1, 1, 1, 1, 1]) = 8"
  by (simp add: get_snapshot_def snapshot_dataset_def plane_env_def list_getitem_def fromfile_def
      decode_def unpackbits_little_def bytes_per_snapshot_def upt_rec)

text \<open>
  Against claim C7 as stated: in a dataset of one snapshot the index \<open>-1\<close> lies outside
  \<open>[0, 1)\<close>, yet nothing is printed and the file of the snapshot is read.
\<close>

theorem negative_index_counterexample:
  "- 1 \<notin> {0 ..< int (length [''s.bin''])} \<and>
   printed (get_snapshot (plane_env\<lparr>files := [''d/s.bin'' \<mapsto> [1]]\<rparr>) (snapshot_dataset [''s.bin'']) (- 1) False) = [] \<and>
   files_accessed (get_snapshot (plane_env\<lparr>files := [''d/s.bin'' \<mapsto> [1]]\<rparr>) (snapshot_dataset [''s.bin'']) (- 1) False)
     = [''d/s.bin'']"
  by (simp add: get_snapshot_def snapshot_dataset_def plane_env_def list_getitem_def fromfile_def
      Let_def)

text \<open>
  Claim C7, as the code has it. For a dataset of size \<open>N\<close>, every index outside
  \<open>[-N, N)\<close> makes \<open>get_snapshot\<close> print the out-of-range message and return \<open>None\<close>
  without raising and without opening a file; the index \<open>N\<close> is such an index. Every
  index inside \<open>[-N, N)\<close> prints nothing and opens one file.
\<close>

theorem index_out_of_range:
  assumes "get_size self = Inr N"
  shows "(idx < - int N \<or> int N \<le> idx \<longrightarrow>
           get_snapshot e self idx nz =
             \<lparr>returned = Inr None,
              printed = [Snapshot_index_out_of_range idx 0 (int N - 1)],
              files_accessed = []\<rparr>) \<and>
         get_snapshot e self (int N) nz =
             \<lparr>returned = Inr None,
              printed = [Snapshot_index_out_of_range (int N) 0 (int N - 1)],
              files_accessed = []\<rparr> \<and>
         (- int N \<le> idx \<and> idx < int N \<longrightarrow>
            printed (get_snapshot e self idx nz) = [] \<and>
            length (files_accessed (get_snapshot e self idx nz)) = 1)"
proof -
  from assms obtain fns where fns: "filenames self = Some fns" and N: "N = length fns"
    by (auto simp add: get_size_def split: option.splits)
  show ?thesis
    unfolding N
  proof (intro conjI impI)
    assume "idx < - int (length fns) \<or> int (length fns) \<le> idx"
    then have "list_getitem fns idx = None"
      by (simp add: list_getitem_None)
    with fns show "get_snapshot e self idx nz =
       \<lparr>returned = Inr None,
        printed = [Snapshot_index_out_of_range idx 0 (int (length fns) - 1)],
        files_accessed = []\<rparr>"
      by (rule get_snapshot_not_found)
  next
    have "list_getitem fns (int (length fns)) = None"
      by (simp add: list_getitem_None)
    with fns show "get_snapshot e self (int (length fns)) nz =
       \<lparr>returned = Inr None,
        printed = [Snapshot_index_out_of_range (int (length fns)) 0 (int (length fns) - 1)],
        files_accessed = []\<rparr>"
      by (rule get_snapshot_not_found)
  next
    assume "- int (length fns) \<le> idx \<and> idx < int (length fns)"
    then obtain name where n: "list_getitem fns idx = Some name"
      using list_getitem_None [of fns idx] by fastforce
    show "printed (get_snapshot e self idx nz) = []"
      by (simp add: get_snapshot_found [OF fns n])
    show "length (files_accessed (get_snapshot e self idx nz)) = 1"
      by (simp add: get_snapshot_found [OF fns n])
  qed
qed

theorem index_out_of_range_witness:
  "get_size (snapshot_dataset [''a.bin'', ''b.bin'']) = Inr 2 \<and>
   get_snapshot plane_env (snapshot_dataset [''a.bin'', ''b.bin'']) 2 False =
     \<lparr>returned = Inr None, printed = [Snapshot_index_out_of_range 2 0 1], files_accessed = []\<rparr> \<and>
   get_snapshot plane_env (snapshot_dataset [''a.bin'', ''b.bin'']) (- 3) False =
     \<lparr>returned = Inr None, printed = [Snapshot_index_out_of_range (- 3) 0 1], files_accessed = []\<rparr>"
proof -
  have h: "get_size (snapshot_dataset [''a.bin'', ''b.bin'']) = Inr 2"
    by (simp add: get_size_def snapshot_dataset_def)
  from index_out_of_range [OF h, of 2 plane_env False]
    index_out_of_range [OF h, of "- 3" plane_env False]
  show ?thesis using h by simp
qed

text \<open>
  Claim C10. For a dataset of size \<open>N \<ge> 1\<close>, \<open>get_snapshot(-1)\<close> does what
  \<open>get_snapshot(N - 1)\<close> does: no out-of-range message is printed, the file of the last
  snapshot (index \<open>N - 1\<close>) is resolved and read, and its bytes are decoded.
\<close>

theorem minus_one_is_last:
  assumes "get_size self = Inr N" and "1 \<le> N"
  shows "\<exists>fns. filenames self = Some fns \<and> length fns = N \<and>
           get_snapshot e self (- 1) nz = get_snapshot e self (int N - 1) nz \<and>
           printed (get_snapshot e self (- 1) nz) = [] \<and>
           files_accessed (get_snapshot e self (- 1) nz) =
             [path_join e (directory self) (fns ! (N - 1))] \<and>
           returned (get_snapshot e self (- 1) nz) =
             (case fromfile e (path_join e (directory self) (fns ! (N - 1))) bytes_per_snapshot of
                Inl err \<Rightarrow> Inl err
              | Inr signal_bytes \<Rightarrow> Inr (Some (decode e signal_bytes nz)))"
proof -
  from assms(1) obtain fns where fns: "filenames self = Some fns" and N: "N = length fns"
    by (auto simp add: get_size_def split: option.splits)
  from assms(2) N have ne: "fns \<noteq> []" by auto
  then have l: "fns ! (N - 1) = last fns"
    by (simp add: N last_conv_nth)
  show ?thesis
    using fns N l
    by (simp add: get_snapshot_found [OF fns list_getitem_minus_one [OF ne]]
        get_snapshot_found [OF fns list_getitem_last_index [OF ne]])
qed

theorem minus_one_is_last_witness:
  "get_size (snapshot_dataset [''a.bin'', ''b.bin'']) = Inr 2 \<and>
   get_snapshot (plane_env\<lparr>files := [''d/b.bin'' \<mapsto> [1]]\<rparr>)
       (snapshot_dataset [''a.bin'', ''b.bin'']) (- 1) False =
     \<lparr>returned = Inr (Some (Int8_signal [- 1, 1, 1, 1, 1, 1, 1, 1])), printed = [],
      files_accessed = [''d/b.bin'']\<rparr>"
proof -
  let ?e = "plane_env\<lparr>files := [''d/b.bin'' \<mapsto> [1]]\<rparr>"
  have h: "get_size (snapshot_dataset [''a.bin'', ''b.bin'']) = Inr 2"
    by (simp add: get_size_def snapshot_dataset_def)
  have "get_snapshot ?e (snapshot_dataset [''a.bin'', ''b.bin'']) 1 False =
     \<lparr>returned = Inr (Some (Int8_signal [- 1, 1, 1, 1, 1, 1, 1, 1])), printed = [],
      files_accessed = [''d/b.bin'']\<rparr>"
    by (simp add: get_snapshot_def snapshot_dataset_def plane_env_def list_getitem_def fromfile_def
      decode_def unpackbits_little_def bytes_per_snapshot_def upt_rec)
  with minus_one_is_last [OF h, of ?e False] h show ?thesis by auto
qed

section \<open>Ground truth from several files\<close>

text \<open>
  Claim C5. With more than one ground-truth file, the claim asks for one reference
  point, the first node of the first file, shared by the conversion of every node. The
  constructor assigns \<open>_ref_location\<close> inside the loop instead: each file is converted
  relative to its own first node, and the reference left for \<open>get_error\<close> is the first
  node of the last file. For two files with nodes \<open>(0,0), (0,1)\<close> and
  \<open>(10,10), (10,11)\<close> (latitude, longitude) the track comes out as
  \<open>(0,0), (1,0), (0,0), (1,0)\<close>; with the shared reference \<open>(0,0)\<close> it would be
  \<open>(0,0), (1,0), (10,10), (11,10)\<close>.
\<close>

theorem two_files_two_references:
  "init_ground_truth (plane_env\<lparr>shapely := Some (sg\<lparr>line_string := Inr\<rparr>)\<rparr>) ''d''
     [(''d/ground_truth1.gpx'', [node 0 0, node 0 1]),
      (''d/ground_truth2.gpx'', [node 10 10, node 10 11])] None None =
     \<lparr>returned = Inr (Some
        \<lparr>ground_truth_attr = Some (Track [node 10 10, node 10 11]),
         ref_location = Some (node 10 10),
         track = Some [(Finite 0, Finite 0), (Finite 1, Finite 0),
                       (Finite 0, Finite 0), (Finite 1, Finite 0)]\<rparr>),
      printed = [Open_ground_truth_file_of_type ''gpx'', Open_ground_truth_file_of_type ''gpx''],
      files_accessed = [''d/ground_truth1.gpx'', ''d/ground_truth2.gpx'']\<rparr> \<and>
   geodetic2enu_nodes plane_enu [node 0 0, node 0 1, node 10 10, node 10 11] (node 0 0) =
     Inr [(Finite 0, Finite 0, Finite 0), (Finite 1, Finite 0, Finite 0),
          (Finite 10, Finite 10, Finite 0), (Finite 11, Finite 10, Finite 0)]"
  by (simp add: init_ground_truth_def plane_env_def file_ending_of_def list_getitem_def node_def
      plane_enu_def exact_subtract_def is_finite_def latitude_refused_def Let_def)

section \<open>Error against a static location\<close>

lemma computed_error_point:
  assumes "pymap3d e = Some pm" and "ref_location self = Some r" and "track self = None"
    and "pm lat lon (Finite 0) (latitude r) (longitude r) (Finite 0) = Inr (east, north, up)"
  shows "computed_error e self lat lon =
     \<lparr>returned = Inr (Some (linalg_norm e [east, north])), printed = [], files_accessed = []\<rparr>"
  using assms by (simp add: computed_error_def)

lemma get_error_of_computed:
  assumes "returned (computed_error e self lat lon) = Inr (Some err)"
  shows "returned (get_error e self lat lon) = Inr (Some (if np_isnan err then np_inf else err))"
  using assms by (simp add: get_error_def Let_def)

text \<open>
  Claim C8. For a static dataset (no track), the distance computed by \<open>get_error\<close> is
  \<open>np.linalg.norm\<close> of the east and north components of the conversion of the test
  point relative to the stored reference, the height being dropped, and it is what the
  method returns when it is a number. At the reference location itself the method
  returns 0, given that the conversion maps the reference to the origin and that the
  norm of the zero vector is 0.
\<close>

theorem point_error:
  assumes "pymap3d e = Some pm" and "ref_location self = Some r" and "track self = None"
    and "pm lat lon (Finite 0) (latitude r) (longitude r) (Finite 0) = Inr (east, north, up)"
  shows "returned (computed_error e self lat lon) = Inr (Some (linalg_norm e [east, north])) \<and>
         (\<not> np_isnan (linalg_norm e [east, north]) \<longrightarrow>
            returned (get_error e self lat lon) = Inr (Some (linalg_norm e [east, north]))) \<and>
         (pm (latitude r) (longitude r) (Finite 0) (latitude r) (longitude r) (Finite 0) =
              Inr (Finite 0, Finite 0, up0) \<and>
          linalg_norm e [Finite 0, Finite 0] = Finite 0 \<longrightarrow>
            returned (get_error e self (latitude r) (longitude r)) = Inr (Some (Finite 0)))"
proof (intro conjI impI)
  show c: "returned (computed_error e self lat lon) = Inr (Some (linalg_norm e [east, north]))"
    by (simp add: computed_error_point [OF assms])
  show "returned (get_error e self lat lon) = Inr (Some (linalg_norm e [east, north]))"
    if "\<not> np_isnan (linalg_norm e [east, north])"
    using that by (simp add: get_error_of_computed [OF c])
  show "returned (get_error e self (latitude r) (longitude r)) = Inr (Some (Finite 0))"
    if h: "pm (latitude r) (longitude r) (Finite 0) (latitude r) (longitude r) (Finite 0) =
              Inr (Finite 0, Finite 0, up0) \<and>
          linalg_norm e [Finite 0, Finite 0] = Finite 0"
  proof -
    from h have "returned (computed_error e self (latitude r) (longitude r)) = Inr (Some (Finite 0))"
      by (simp add: computed_error_point [OF assms(1-3), of "latitude r" "longitude r"])
    then show ?thesis
      by (simp add: get_error_of_computed np_isnan_def)
  qed
qed

lemma sqrt_25: "sqrt 25 = 5"
  using real_sqrt_abs [of 5] by simp

theorem point_error_witness:
  "returned (get_error plane_env (static_model (node 2 2)) (Finite 5) (Finite 6)) = Inr (Some (Finite 5)) \<and>
   returned (get_error plane_env (static_model (node 2 2)) (Finite 2) (Finite 2)) = Inr (Some (Finite 0))"
proof -
  have 1: "pymap3d plane_env = Some plane_enu"
    by (simp add: plane_env_def)
  have 2: "ref_location (static_model (node 2 2)) = Some (node 2 2)"
    and 3: "track (static_model (node 2 2)) = None"
    by (simp_all add: static_model_def)
  have 4: "plane_enu (Finite 5) (Finite 6) (Finite 0) (latitude (node 2 2)) (longitude (node 2 2)) (Finite 0)
     = Inr (Finite 4, Finite 3, Finite 0)"
    by (simp add: plane_enu_def exact_subtract_def is_finite_def node_def latitude_refused_def)
  have 5: "plane_enu (latitude (node 2 2)) (longitude (node 2 2)) (Finite 0)
      (latitude (node 2 2)) (longitude (node 2 2)) (Finite 0) = Inr (Finite 0, Finite 0, Finite 0)"
    by (simp add: plane_enu_def exact_subtract_def is_finite_def node_def latitude_refused_def)
  have 6: "linalg_norm plane_env [Finite 4, Finite 3] = Finite 5"
    by (simp add: plane_env_def exact_norm_def np_isnan_def is_finite_def sqrt_25)
  have 7: "linalg_norm plane_env [Finite 0, Finite 0] = Finite 0"
    by (simp add: plane_env_def exact_norm_def np_isnan_def is_finite_def)
  from point_error [OF 1 2 3 4, of "Finite 0"] 5 6 7 show ?thesis
    by (simp add: np_isnan_def node_def)
qed

section \<open>Error against a track\<close>

















lemma dist2_commute: "dist2 p q = dist2 q p"
  by (simp add: dist2_def algebra_simps)




section \<open>The sentinel for an undefined distance\<close>

lemma computed_error_is_norm:
  assumes "returned (computed_error e self lat lon) = Inr (Some err)"
  shows "\<exists>v. err = linalg_norm e v"
  using assms
  by (auto simp add: computed_error_def split: option.splits sum.splits prod.splits)

lemma get_error_passes_on:
  assumes "\<forall>err. returned (computed_error e self lat lon) \<noteq> Inr (Some err)"
  shows "get_error e self lat lon = computed_error e self lat lon"
  using assms by (auto simp add: get_error_def Let_def split: sum.splits option.splits)

text \<open>
  An exception raised by the conversion or by Shapely is not caught by \<open>get_error\<close>.
\<close>

lemma get_error_conversion_raises:
  assumes "pymap3d e = Some pm" and "ref_location self = Some r"
    and "pm lat lon (Finite 0) (latitude r) (longitude r) (Finite 0) = Inl err"
  shows "returned (get_error e self lat lon) = Inl err"
  using assms by (simp add: get_error_def computed_error_def)

lemma get_error_project_raises:
  assumes "pymap3d e = Some pm" and "ref_location self = Some r" and "track self = Some line"
    and "shapely e = Some sg"
    and "pm lat lon (Finite 0) (latitude r) (longitude r) (Finite 0) = Inr (east, north, up)"
    and "project sg line (east, north) = Inl err"
  shows "returned (get_error e self lat lon) = Inl err"
  using assms by (simp add: get_error_def computed_error_def)

text \<open>
  Against claim C9 as stated: the constructor leaves a dataset that has neither a
  ground-truth file nor a location in its metadata with the reference \<open>None\<close>, and
  \<open>get_error\<close> on it raises TypeError; and where pymap3d cannot be imported the method
  returns \<open>None\<close>, which is neither a finite number nor \<open>+inf\<close>.
\<close>

theorem no_distance_counterexample:
  "returned (init_ground_truth plane_env ''d'' [] None None) =
     Inr (Some \<lparr>ground_truth_attr = None, ref_location = None, track = None\<rparr>) \<and>
   returned (get_error plane_env \<lparr>ground_truth_attr = None, ref_location = None, track = None\<rparr>
       (Finite 5) (Finite 6)) = Inl TypeError \<and>
   returned (get_error (plane_env\<lparr>pymap3d := None\<rparr>) (static_model (node 2 2)) (Finite 5) (Finite 6)) =
     Inr None"
  by (simp add: init_ground_truth_def get_error_def computed_error_def plane_env_def
      static_model_def node_def)

text \<open>
  Claim C9, as the code has it. Whenever \<open>get_error\<close> computes a distance (the dataset has
  a reference location, the packages are imported and their calls return), it returns
  \<open>+inf\<close> if that distance is not a finite number and the distance itself otherwise, and
  raises nothing. With \<open>np.linalg.norm\<close> returning what a norm can be (a non-negative
  number, \<open>+inf\<close> or NaN), the value returned is a finite non-negative number or \<open>+inf\<close>.
\<close>

theorem undefined_distance_sentinel:
  assumes "returned (computed_error e self lat lon) = Inr (Some err)"
    and "\<forall>v. norm_value (linalg_norm e v)"
  shows "\<exists>d. returned (get_error e self lat lon) = Inr (Some d) \<and>
           (\<not> is_finite err \<longrightarrow> d = PosInf) \<and>
           (is_finite err \<longrightarrow> d = err) \<and>
           (d = PosInf \<or> (\<exists>x \<ge> 0. d = Finite x))"
proof -
  let ?d = "if np_isnan err then np_inf else err"
  have g: "returned (get_error e self lat lon) = Inr (Some ?d)"
    by (rule get_error_of_computed [OF assms(1)])
  from computed_error_is_norm [OF assms(1)] assms(2) have nv: "norm_value err" by auto
  have "\<not> is_finite err \<longrightarrow> ?d = PosInf"
    using nv by (cases err) (simp_all add: norm_value_def np_isnan_def np_inf_def is_finite_def)
  moreover have "is_finite err \<longrightarrow> ?d = err"
    by (cases err) (simp_all add: np_isnan_def is_finite_def)
  moreover have "?d = PosInf \<or> (\<exists>x \<ge> 0. ?d = Finite x)"
    using nv by (cases err) (simp_all add: norm_value_def np_isnan_def np_inf_def)
  ultimately show ?thesis using g by blast
qed

lemma exact_norm_value: "norm_value (exact_norm v)"
proof -
  have "0 \<le> (\<Sum>x\<leftarrow>v. real_of_np x * real_of_np x)"
    by (rule sum_list_nonneg) auto
  then show ?thesis
    by (simp add: exact_norm_def norm_value_def)
qed

theorem undefined_distance_sentinel_witness:
  "returned (computed_error plane_env (static_model (node 2 2)) NaN (Finite 6)) = Inr (Some NaN) \<and>
   returned (get_error plane_env (static_model (node 2 2)) NaN (Finite 6)) = Inr (Some PosInf)"
proof -
  have 4: "\<forall>v. norm_value (linalg_norm plane_env v)"
    by (simp add: plane_env_def exact_norm_value)
  have 5: "returned (computed_error plane_env (static_model (node 2 2)) NaN (Finite 6)) = Inr (Some NaN)"
    by (simp add: computed_error_def plane_env_def static_model_def node_def plane_enu_def
        exact_subtract_def is_finite_def exact_norm_def np_isnan_def latitude_refused_def)
  from undefined_distance_sentinel [OF 5 4] 5 show ?thesis
    by (auto simp add: is_finite_def)
qed


end
